theory Spec2Isabelle
  imports Main "HOL-Library.Word"
begin

section \<open>Data model\<close>

text \<open>
  The script \<^verbatim>\<open>py_wget_cookie.py\<close> has two functions, \<^verbatim>\<open>get_output_filename\<close> and
  \<^verbatim>\<open>download_with_cookies\<close>, and a main block that calls one after the other.  Both
  functions print, and the second one talks to three collaborators outside the script:
  the browser cookie extractor, the HTTP session and the file system.  The effects are
  written out as a \<open>world\<close> that every function takes and returns; what the
  collaborators answer is an \<open>env\<close> that stays fixed during a run.
\<close>

type_synonym bytes = "8 word list"

text \<open>
  An HTTP response as the script reads it: \<^verbatim>\<open>status_code\<close>, \<^verbatim>\<open>reason\<close>, \<^verbatim>\<open>url\<close>
  (it appears in the text of an \<^verbatim>\<open>HTTPError\<close>) and \<^verbatim>\<open>content\<close> (the body, already read
  when \<^verbatim>\<open>session.get\<close> returns).
\<close>

record response =
  status_code :: int
  reason :: string
  resp_url :: string
  content :: bytes

text \<open>
  Exceptions, by the classes the script's \<^verbatim>\<open>except\<close> clauses tell apart.  Each
  carries the text \<^verbatim>\<open>str(e)\<close>.
  \<^item> \<open>HTTPError\<close>: \<^verbatim>\<open>requests.exceptions.HTTPError\<close>, with the response it was raised for;
  \<^item> \<open>RequestException\<close>: any other instance of \<^verbatim>\<open>requests.exceptions.RequestException\<close>,
    with its subclass: \<^verbatim>\<open>ConnectionError\<close> (refused connection, DNS failure), \<^verbatim>\<open>SSLError\<close>
    (TLS failure), \<^verbatim>\<open>Timeout\<close> and its two subclasses, and so on;
  \<^item> \<open>IOError\<close>: an \<^verbatim>\<open>OSError\<close> that is not a \<^verbatim>\<open>RequestException\<close>;
  \<^item> \<open>OtherException\<close>: every other instance of \<^verbatim>\<open>Exception\<close> (\<^verbatim>\<open>ValueError\<close>, ...).

  \<^verbatim>\<open>RequestException\<close> is a subclass of \<^verbatim>\<open>IOError\<close> in the library, so the order of
  the clauses matters; the constructors are disjoint and the handler below keeps the order
  of the source.  Only instances of \<^verbatim>\<open>Exception\<close> are modelled: \<^verbatim>\<open>KeyboardInterrupt\<close>
  and \<^verbatim>\<open>SystemExit\<close> are not results of a library call.  An \<open>HTTPError\<close> always has
  its response, which the handler reads: the library raises it in \<^verbatim>\<open>raise_for_status\<close>
  only, with the response attached.
\<close>

datatype request_failure =
    ConnectionError
  | SSLError
  | ProxyError
  | Timeout
  | ConnectTimeout
  | ReadTimeout
  | TooManyRedirects
  | OtherRequestException

datatype exn =
    HTTPError string response
  | RequestException request_failure string
  | IOError string
  | OtherException string

fun str_exn :: "exn \<Rightarrow> string" where
  "str_exn (HTTPError m r) = m"
| "str_exn (RequestException k m) = m"
| "str_exn (IOError m) = m"
| "str_exn (OtherException m) = m"

text \<open>The six fields of \<^verbatim>\<open>urllib.parse.ParseResult\<close>.\<close>

record ParseResult =
  scheme :: string
  netloc :: string
  path :: string
  params :: string
  query :: string
  fragment :: string

text \<open>
  \<^verbatim>\<open>urlparse\<close> is imported from the standard library; the script only reads \<^verbatim>\<open>.path\<close>
  of its result and catches whatever it raises.  It is a parameter of the model.
\<close>

type_synonym urlparse_fn = "string \<Rightarrow> exn + ParseResult"

text \<open>A cookie jar is a bag of cookies the script never looks into; it only asks for its length.\<close>

record cookie =
  domain :: string
  name :: string
  cvalue :: string

type_synonym cookie_jar = "cookie list"

text \<open>
  A \<^verbatim>\<open>requests.Session\<close>, as far as the script sets it up, and the GET request issued
  through it.
\<close>

record session =
  cookies :: cookie_jar
  headers :: "(string \<times> string) list"

record request =
  req_url :: string
  req_cookies :: cookie_jar
  req_headers :: "(string \<times> string) list"
  allow_redirects :: bool

text \<open>
  The world: what was printed (one entry for each call of \<^verbatim>\<open>print\<close>), the files, the
  paths \<^verbatim>\<open>open\<close> was called on, and the GET requests issued, in order.
\<close>

record world =
  stdout :: "string list"
  files :: "string \<rightharpoonup> bytes"
  open_calls :: "string list"
  sent :: "request list"

text \<open>
  The collaborators:
  \<^item> \<open>browsercookie_load\<close>: what \<^verbatim>\<open>browsercookie.load()\<close> returns or raises;
  \<^item> \<open>default_headers\<close>: the headers of a fresh \<^verbatim>\<open>requests.Session()\<close>;
  \<^item> \<open>session_get\<close>: what \<^verbatim>\<open>session.get\<close> returns or raises for a request;
  \<^item> \<open>open_error\<close>: the exception \<^verbatim>\<open>open(path, 'wb')\<close> raises, if any;
  \<^item> \<open>write_error\<close>: the exception \<^verbatim>\<open>f.write(data)\<close> raises, if any, with the number of
    bytes that reached the file before it.
\<close>

record env =
  browsercookie_load :: "exn + cookie_jar"
  default_headers :: "(string \<times> string) list"
  session_get :: "request \<Rightarrow> exn + response"
  open_error :: "string \<Rightarrow> exn option"
  write_error :: "string \<Rightarrow> bytes \<Rightarrow> (exn \<times> nat) option"

section \<open>Library functions the script calls\<close>

text \<open>
  \<^verbatim>\<open>print\<close> appends to standard output.  Printing, creating the session and closing
  it are taken never to raise.
\<close>

definition print :: "string \<Rightarrow> world \<Rightarrow> world" where
  "print s w = w\<lparr>stdout := stdout w @ [s]\<rparr>"

text \<open>\<^verbatim>\<open>str.rfind\<close> for a single character: the last index, or \<open>-1\<close>.\<close>

fun rfind :: "char \<Rightarrow> string \<Rightarrow> int" where
  "rfind c [] = - 1"
| "rfind c (x # xs) =
     (let r = rfind c xs in
      if 0 \<le> r then r + 1 else if x = c then 0 else - 1)"

text \<open>
  \<^verbatim>\<open>os.path.basename\<close> of \<^verbatim>\<open>posixpath\<close>:
  \<^verbatim>\<open>i = p.rfind('/') + 1; return p[i:]\<close>.
\<close>

definition basename :: "string \<Rightarrow> string" where
  "basename p = drop (nat (rfind (CHR ''/'') p + 1)) p"

subsection \<open>A concrete URL parser\<close>

text \<open>
  The theorems below hold for every parser.  To evaluate them at concrete URLs, this is
  \<^verbatim>\<open>urllib.parse.urlparse\<close> of CPython 3.12 on a \<^verbatim>\<open>str\<close>, statement by
  statement: \<^verbatim>\<open>urlsplit\<close> strips leading control characters and spaces, removes tab, CR
  and LF, splits off the scheme, the network location, the fragment and the query, and
  \<^verbatim>\<open>urlparse\<close> then splits the parameters off the last path segment.  A string is a
  list of bytes here, so a character outside ASCII is the bytes of its encoding.

  \<^verbatim>\<open>urlsplit\<close> raises \<^verbatim>\<open>ValueError\<close> for a network location with one bracket but not the
  other.  Its two further validations (\<^verbatim>\<open>_check_bracketed_netloc\<close>, which needs the
  \<^verbatim>\<open>ipaddress\<close> module, and \<^verbatim>\<open>_checknetloc\<close>, which needs Unicode normalisation) are
  parameters, asked under the conditions of the source: the first when the location has
  both brackets, the second when it is not empty and not ASCII.
\<close>

fun str_find :: "char \<Rightarrow> string \<Rightarrow> int" where
  "str_find c [] = - 1"
| "str_find c (x # xs) =
     (if x = c then 0
      else (let r = str_find c xs in if r < 0 then - 1 else r + 1))"

definition str_find_from :: "char \<Rightarrow> string \<Rightarrow> int \<Rightarrow> int" where
  "str_find_from c s start =
     (let r = str_find c (drop (nat start) s) in if r < 0 then - 1 else r + start)"

text \<open>Python slices \<^verbatim>\<open>s[i:]\<close>, \<^verbatim>\<open>s[:j]\<close> and \<^verbatim>\<open>s[i:j]\<close>; a negative index counts from the end.\<close>

definition slice_bound :: "string \<Rightarrow> int \<Rightarrow> nat" where
  "slice_bound s i = (if i < 0 then nat (int (length s) + i) else nat i)"

definition str_from :: "string \<Rightarrow> int \<Rightarrow> string" where
  "str_from s i = drop (slice_bound s i) s"

definition str_upto :: "string \<Rightarrow> int \<Rightarrow> string" where
  "str_upto s j = take (slice_bound s j) s"

definition slice :: "string \<Rightarrow> int \<Rightarrow> int \<Rightarrow> string" where
  "slice s i j = drop (slice_bound s i) (take (slice_bound s j) s)"

definition is_c0_control_or_space :: "char \<Rightarrow> bool" where
  "is_c0_control_or_space c = ((of_char c :: nat) \<le> 32)"

definition is_unsafe_url_byte :: "char \<Rightarrow> bool" where
  "is_unsafe_url_byte c = (c = CHR 0x09 \<or> c = CHR 0x0D \<or> c = CHR 0x0A)"

definition is_ascii_alpha :: "char \<Rightarrow> bool" where
  "is_ascii_alpha c =
     (let n = (of_char c :: nat) in (65 \<le> n \<and> n \<le> 90) \<or> (97 \<le> n \<and> n \<le> 122))"

definition is_scheme_char :: "char \<Rightarrow> bool" where
  "is_scheme_char c =
     (let n = (of_char c :: nat) in
      is_ascii_alpha c \<or> (48 \<le> n \<and> n \<le> 57) \<or> c = CHR ''+'' \<or> c = CHR ''-'' \<or> c = CHR ''.'')"

definition str_lower :: "string \<Rightarrow> string" where
  "str_lower s =
     map (\<lambda>c. let n = (of_char c :: nat) in if 65 \<le> n \<and> n \<le> 90 then char_of (n + 32) else c) s"

definition uses_params :: "string list" where
  "uses_params =
     [[], ''ftp'', ''hdl'', ''prospero'', ''http'', ''imap'', ''https'', ''shttp'', ''rtsp'',
      ''rtsps'', ''rtspu'', ''sip'', ''sips'', ''mms'', ''sftp'', ''tel'']"

record netloc_checks =
  check_bracketed_netloc :: "string \<Rightarrow> exn option"
  checknetloc :: "string \<Rightarrow> exn option"

text \<open>\<^verbatim>\<open>_splitnetloc(url, start)\<close>: the loop over the three delimiters is a fold.\<close>

definition splitnetloc :: "string \<Rightarrow> int \<Rightarrow> string \<times> string" where
  "splitnetloc url start =
     (let delim = foldl (\<lambda>delim c. let wdelim = str_find_from c url start in
                                    if 0 \<le> wdelim then min delim wdelim else delim)
                        (int (length url)) ''/?#''
      in (slice url start delim, str_from url delim))"

text \<open>\<^verbatim>\<open>_splitparams(url)\<close>.\<close>

definition splitparams :: "string \<Rightarrow> string \<times> string" where
  "splitparams url =
     (if CHR ''/'' \<in> set url
      then (let i = str_find_from (CHR '';'') url (rfind (CHR ''/'') url) in
            if i < 0 then (url, []) else (str_upto url i, str_from url (i + 1)))
      else (let i = str_find (CHR '';'') url in (str_upto url i, str_from url (i + 1))))"

text \<open>\<^verbatim>\<open>urlsplit(url)\<close>: scheme, network location, path, query, fragment.\<close>

definition urlsplit ::
    "netloc_checks \<Rightarrow> string \<Rightarrow> exn + (string \<times> string \<times> string \<times> string \<times> string)" where
  "urlsplit checks url0 =
     (let url1 = filter (\<lambda>c. \<not> is_unsafe_url_byte c) (dropWhile is_c0_control_or_space url0);
          i = str_find (CHR '':'') url1;
          (sch, url2) =
            (if 0 < i \<and> is_ascii_alpha (hd url1) \<and> list_all is_scheme_char (str_upto url1 i)
             then (str_lower (str_upto url1 i), str_from url1 (i + 1))
             else ([], url1));
          has_netloc = (take 2 url2 = ''//'');
          (nloc, url3) = (if has_netloc then splitnetloc url2 2 else ([], url2));
          lbr = (CHR ''['' \<in> set nloc);
          rbr = (CHR '']'' \<in> set nloc)
      in if has_netloc \<and> ((lbr \<and> \<not> rbr) \<or> (rbr \<and> \<not> lbr))
         then Inl (OtherException ''Invalid IPv6 URL'')
         else (case (if has_netloc \<and> lbr \<and> rbr then check_bracketed_netloc checks nloc
                     else None) of
                 Some e \<Rightarrow> Inl e
               | None \<Rightarrow>
                   (let (url4, frag) =
                          (if CHR ''#'' \<in> set url3
                           then (str_upto url3 (str_find (CHR ''#'') url3),
                                 str_from url3 (str_find (CHR ''#'') url3 + 1))
                           else (url3, []));
                        (url5, qry) =
                          (if CHR ''?'' \<in> set url4
                           then (str_upto url4 (str_find (CHR ''?'') url4),
                                 str_from url4 (str_find (CHR ''?'') url4 + 1))
                           else (url4, []))
                    in case (if nloc \<noteq> [] \<and> \<not> list_all (\<lambda>c. (of_char c :: nat) < 128) nloc
                             then checknetloc checks nloc else None) of
                         Some e \<Rightarrow> Inl e
                       | None \<Rightarrow> Inr (sch, nloc, url5, qry, frag))))"

definition cpython_urlparse :: "netloc_checks \<Rightarrow> urlparse_fn" where
  "cpython_urlparse checks url =
     (case urlsplit checks url of
        Inl e \<Rightarrow> Inl e
      | Inr (sch, nloc, url1, qry, frag) \<Rightarrow>
          (let (url2, prms) =
                 (if sch \<in> set uses_params \<and> CHR '';'' \<in> set url1
                  then splitparams url1 else (url1, []))
           in Inr \<lparr>scheme = sch, netloc = nloc, path = url2, params = prms,
                    query = qry, fragment = frag\<rparr>))"

text \<open>The parser of an interpreter whose two further validations accept everything.\<close>

definition no_checks :: netloc_checks where
  "no_checks = \<lparr>check_bracketed_netloc = (\<lambda>n. None), checknetloc = (\<lambda>n. None)\<rparr>"

text \<open>A single quote and a line feed, for the printed messages.\<close>

definition quoted :: "string \<Rightarrow> string" where
  "quoted s = [CHR 0x27] @ s @ [CHR 0x27]"

definition nl :: string where
  "nl = [CHR 0x0A]"

section \<open>The filename resolver\<close>

text \<open>
  \<^verbatim>\<open>get_output_filename(url, provided_filename=None)\<close>.  \<^verbatim>\<open>if provided_filename\<close> is
  false for \<^verbatim>\<open>None\<close> and for the empty string.  The body of the \<^verbatim>\<open>try\<close> can raise only
  in \<^verbatim>\<open>urlparse\<close>; the \<^verbatim>\<open>except Exception\<close> clause catches it.  The result is a sum so
  that an escaping exception would show.
\<close>

definition get_output_filename ::
    "urlparse_fn \<Rightarrow> string \<Rightarrow> string option \<Rightarrow> world \<Rightarrow> (exn + string) \<times> world" where
  "get_output_filename urlparse url provided_filename w =
     (let inferred =
        (case urlparse url of
           Inr r \<Rightarrow>
             (let filename = basename (path r) in
              if filename = []
              then (Inr ''index.html'',
                    print (''No filename in URL. Defaulting to '' @ quoted ''index.html'') w)
              else (Inr filename, w))
         | Inl e \<Rightarrow>
             (Inr ''index.html'',
              print (''Could not parse URL to get filename: '' @ str_exn e
                     @ ''. Defaulting to '' @ quoted ''index.html'') w))
      in case provided_filename of
           Some p \<Rightarrow> if p \<noteq> [] then (Inr p, w) else inferred
         | None \<Rightarrow> inferred)"

section \<open>The downloader\<close>

text \<open>Decimal text of an integer, as an f-string prints \<^verbatim>\<open>len(cookie_jar)\<close> and a status code.\<close>

fun str_nat :: "nat \<Rightarrow> string" where
  "str_nat n =
     (if n < 10 then [char_of (48 + n)]
      else str_nat (n div 10) @ [char_of (48 + n mod 10)])"

definition str_int :: "int \<Rightarrow> string" where
  "str_int i = (if i < 0 then CHR ''-'' # str_nat (nat (- i)) else str_nat (nat i))"

text \<open>
  \<^verbatim>\<open>Response.raise_for_status\<close> of the \<^verbatim>\<open>requests\<close> library: it raises \<^verbatim>\<open>HTTPError\<close>, with
  the response attached, for a status from 400 to 599, and returns otherwise.
\<close>

definition raise_for_status :: "response \<Rightarrow> exn + unit" where
  "raise_for_status r =
     (if 400 \<le> status_code r \<and> status_code r < 500
      then Inl (HTTPError (str_int (status_code r) @ '' Client Error: '' @ reason r
                           @ '' for url: '' @ resp_url r) r)
      else if 500 \<le> status_code r \<and> status_code r < 600
      then Inl (HTTPError (str_int (status_code r) @ '' Server Error: '' @ reason r
                           @ '' for url: '' @ resp_url r) r)
      else Inr ())"

text \<open>A fresh \<^verbatim>\<open>requests.Session()\<close>: an empty cookie jar and the library's default headers.\<close>

definition Session :: "env \<Rightarrow> session" where
  "Session env = \<lparr>cookies = [], headers = default_headers env\<rparr>"

definition user_agent :: string where
  "user_agent = ''Mozilla/5.0 (X11; Linux x86_64; rv:109.0) Gecko/20100101 Firefox/115.0''"

text \<open>
  Lines 23 to 37: the first \<^verbatim>\<open>try\<close>.  \<^verbatim>\<open>if not cookie_jar\<close> is true for a jar of length
  zero.  The result is the value of the variable \<^verbatim>\<open>cookie_jar\<close> afterwards, \<open>None\<close>
  for Python's \<^verbatim>\<open>None\<close>.
\<close>

definition load_browser_cookies :: "env \<Rightarrow> world \<Rightarrow> cookie_jar option \<times> world" where
  "load_browser_cookies env w =
     (case browsercookie_load env of
        Inr cookie_jar \<Rightarrow>
          (Some cookie_jar,
           if cookie_jar = []
           then print ''Warning: No cookies were found or loaded.'' w
           else print (''Successfully loaded '' @ str_nat (length cookie_jar) @ '' cookies.'') w)
      | Inl e \<Rightarrow>
          (None,
           print ''Proceeding without cookies...''
             (print ''This can happen if browsers are not found or if decryption fails.''
                (print (''Error loading cookies: '' @ str_exn e) w))))"

text \<open>
  Lines 21 to 53: everything before the second \<^verbatim>\<open>try\<close>.  The session gets the jar only
  if the jar is true (loaded and not empty); its headers are replaced, not extended.
\<close>

definition prepare_session :: "env \<Rightarrow> string \<Rightarrow> world \<Rightarrow> session \<times> world" where
  "prepare_session env url w =
     (let w0 = print ''Attempting to load cookies from browsers (Chrome, Firefox, etc.)...'' w;
          (cookie_jar, w1) = load_browser_cookies env w0;
          session0 = Session env;
          session1 = (case cookie_jar of
                        Some jar \<Rightarrow> if jar \<noteq> [] then session0\<lparr>cookies := jar\<rparr> else session0
                      | None \<Rightarrow> session0);
          session2 = session1\<lparr>headers := [(''User-Agent'', user_agent)]\<rparr>
      in (session2, print (nl @ ''Downloading: '' @ url) w1))"

text \<open>
  Lines 56 to 70: the body of the second \<^verbatim>\<open>try\<close>.  Every call that can raise returns
  \<open>Inl\<close> at that point, with the world as it is then.  \<^verbatim>\<open>open(..., 'wb')\<close> truncates
  the file; the \<^verbatim>\<open>with\<close> block closes it on every path.
\<close>

definition request_and_save ::
    "env \<Rightarrow> session \<Rightarrow> string \<Rightarrow> string \<Rightarrow> world \<Rightarrow> (exn + unit) \<times> world" where
  "request_and_save env session url output_file w =
     (let req = \<lparr>req_url = url, req_cookies = cookies session,
                 req_headers = headers session, allow_redirects = True\<rparr>;
          w1 = w\<lparr>sent := sent w @ [req]\<rparr>
      in case session_get env req of
           Inl e \<Rightarrow> (Inl e, w1)
         | Inr response \<Rightarrow>
             (case raise_for_status response of
                Inl e \<Rightarrow> (Inl e, w1)
              | Inr u \<Rightarrow>
                  (let w2 = w1\<lparr>open_calls := open_calls w1 @ [output_file]\<rparr>
                   in case open_error env output_file of
                        Some e \<Rightarrow> (Inl e, w2)
                      | None \<Rightarrow>
                          (let w3 = w2\<lparr>files := (files w2)(output_file \<mapsto> [])\<rparr>
                           in case write_error env output_file (content response) of
                                Some (e, n) \<Rightarrow>
                                  (Inl e,
                                   w3\<lparr>files := (files w3)(output_file \<mapsto>
                                                  take n (content response))\<rparr>)
                              | None \<Rightarrow>
                                  (Inr (),
                                   print (nl @ ''Success! Content saved to: '' @ output_file)
                                     (w3\<lparr>files := (files w3)(output_file \<mapsto>
                                                     content response)\<rparr>))))))"

text \<open>Lines 72 to 80: the four \<^verbatim>\<open>except\<close> clauses, in the order of the source.\<close>

fun report_error :: "string \<Rightarrow> exn \<Rightarrow> world \<Rightarrow> (exn + unit) \<times> world" where
  "report_error output_file (HTTPError m r) w =
     (Inr (),
      print ''This could be due to missing/invalid cookies or a bad URL.''
        (print (nl @ ''HTTP Error: '' @ str_int (status_code r) @ '' '' @ reason r) w))"
| "report_error output_file (RequestException k m) w =
     (Inr (), print (nl @ ''An error occurred: '' @ m) w)"
| "report_error output_file (IOError m) w =
     (Inr (), print (nl @ ''Error writing to file '' @ output_file @ '': '' @ m) w)"
| "report_error output_file (OtherException m) w =
     (Inr (), print (nl @ ''An unexpected error occurred: '' @ m) w)"

definition download_with_cookies ::
    "env \<Rightarrow> string \<Rightarrow> string \<Rightarrow> world \<Rightarrow> (exn + unit) \<times> world" where
  "download_with_cookies env url output_file w =
     (let (session, w2) = prepare_session env url w;
          (r, w3) = request_and_save env session url output_file w2
      in case r of
           Inr u \<Rightarrow> (Inr (), w3)
         | Inl e \<Rightarrow> report_error output_file e w3)"

section \<open>The main block\<close>


section \<open>Example inputs\<close>

text \<open>A world in which nothing has been printed, written or sent yet.\<close>

definition empty_world :: world where
  "empty_world = \<lparr>stdout = [], files = Map.empty, open_calls = [], sent = []\<rparr>"

text \<open>
  Collaborators for the examples: no cookies in any browser, a network that gives one
  fixed answer, and a file system that accepts every write.  Single fields are changed
  where an example needs a failure.
\<close>

definition example_env :: "exn + response \<Rightarrow> env" where
  "example_env answer =
     \<lparr>browsercookie_load = Inr [],
      default_headers = [(''User-Agent'', ''python-requests/2.31.0''), (''Accept'', ''*/*'')],
      session_get = (\<lambda>req. answer),
      open_error = (\<lambda>p. None),
      write_error = (\<lambda>p d. None)\<rparr>"

text \<open>A response with the body \<^verbatim>\<open>b"hello"\<close>.\<close>

definition example_response :: "int \<Rightarrow> string \<Rightarrow> response" where
  "example_response code phrase =
     \<lparr>status_code = code, reason = phrase, resp_url = ''http://example.com/data.zip'',
      content = [104, 101, 108, 108, 111]\<rparr>"

section \<open>Facts about the library functions\<close>

text \<open>
  \<open>basename\<close> returns what follows the last slash: the final segment of the path.
\<close>

lemma rfind_absent: "c \<notin> set s \<Longrightarrow> rfind c s = - 1"
  by (induction s) (auto simp: Let_def)

lemma rfind_last_occurrence: "c \<notin> set seg \<Longrightarrow> rfind c (pre @ c # seg) = int (length pre)"
  by (induction pre) (auto simp: Let_def rfind_absent)

lemma basename_no_slash: "CHR ''/'' \<notin> set seg \<Longrightarrow> basename seg = seg"
  by (simp add: basename_def rfind_absent)

lemma basename_after_slash: "CHR ''/'' \<notin> set seg \<Longrightarrow> basename (pre @ CHR ''/'' # seg) = seg"
  by (simp add: basename_def rfind_last_occurrence nat_add_distrib)

lemma basename_final_segment:
  assumes "pre = [] \<or> last pre = CHR ''/''" and "CHR ''/'' \<notin> set seg"
  shows "basename (pre @ seg) = seg"
proof (cases "pre = []")
  case True
  then show ?thesis using assms by (simp add: basename_no_slash)
next
  case False
  with assms(1) obtain pre' where "pre = pre' @ [CHR ''/'']"
    by (metis append_butlast_last_id)
  then show ?thesis using assms(2) by (simp add: basename_after_slash)
qed

lemma basename_takeWhile: "basename p = rev (takeWhile (\<lambda>c. c \<noteq> CHR ''/'') (rev p))"
proof -
  let ?P = "\<lambda>c. c \<noteq> CHR ''/''"
  let ?pre = "rev (dropWhile ?P (rev p))" and ?seg = "rev (takeWhile ?P (rev p))"
  have split: "p = ?pre @ ?seg"
    by (metis rev_append rev_rev_ident takeWhile_dropWhile_id)
  have pre: "?pre = [] \<or> last ?pre = CHR ''/''"
  proof (cases "dropWhile ?P (rev p) = []")
    case True
    then show ?thesis by simp
  next
    case False
    then have "\<not> ?P (hd (dropWhile ?P (rev p)))" by (rule hd_dropWhile)
    with False show ?thesis by (simp add: last_rev)
  qed
  have seg: "CHR ''/'' \<notin> set ?seg"
    using set_takeWhileD [of "CHR ''/''" ?P "rev p"] by auto
  have "basename (?pre @ ?seg) = ?seg"
    using pre seg by (rule basename_final_segment)
  with split show ?thesis by simp
qed

lemma basename_empty_iff: "basename p = [] \<longleftrightarrow> p = [] \<or> last p = CHR ''/''"
  by (cases "p = []") (auto simp: basename_takeWhile takeWhile_eq_Nil_iff hd_rev)

text \<open>
  The path that \<open>cpython_urlparse\<close> returns contains neither \<open>?\<close> nor \<open>#\<close>: the
  fragment is cut at the first \<open>#\<close>, then the query at the first \<open>?\<close>, and the
  parameters are cut from what is left.
\<close>

lemma str_find_takeWhile:
  "c \<in> set s \<Longrightarrow> 0 \<le> str_find c s \<and> take (nat (str_find c s)) s = takeWhile (\<lambda>x. x \<noteq> c) s"
  by (induction s) (auto simp: Let_def nat_add_distrib)

lemma str_upto_find: "c \<in> set s \<Longrightarrow> str_upto s (str_find c s) = takeWhile (\<lambda>x. x \<noteq> c) s"
  using str_find_takeWhile [of c s] by (simp add: str_upto_def slice_bound_def)

lemma not_in_takeWhile: "c \<notin> set (takeWhile (\<lambda>x. x \<noteq> c) s)"
  using set_takeWhileD [of c "\<lambda>x. x \<noteq> c" s] by auto

lemma set_str_upto: "set (str_upto s i) \<subseteq> set s"
  by (simp add: str_upto_def set_take_subset)

lemma set_splitparams: "set (fst (splitparams u)) \<subseteq> set u"
  by (simp add: splitparams_def Let_def set_str_upto)

lemma urlsplit_path_delimiters:
  assumes "urlsplit checks url = Inr (sch, nloc, p, qry, frag)"
  shows "CHR ''?'' \<notin> set p \<and> CHR ''#'' \<notin> set p"
proof -
  define url1 where
    "url1 = filter (\<lambda>c. \<not> is_unsafe_url_byte c) (dropWhile is_c0_control_or_space url)"
  define su where
    "su = (if 0 < str_find (CHR '':'') url1 \<and> is_ascii_alpha (hd url1)
              \<and> list_all is_scheme_char (str_upto url1 (str_find (CHR '':'') url1))
           then (str_lower (str_upto url1 (str_find (CHR '':'') url1)),
                 str_from url1 (str_find (CHR '':'') url1 + 1))
           else ([], url1))"
  define hn where "hn = (take 2 (snd su) = ''//'')"
  define nu where "nu = (if hn then splitnetloc (snd su) 2 else ([], snd su))"
  define bad where
    "bad = (hn \<and> ((CHR ''['' \<in> set (fst nu) \<and> CHR '']'' \<notin> set (fst nu))
                 \<or> (CHR '']'' \<in> set (fst nu) \<and> CHR ''['' \<notin> set (fst nu))))"
  define c1 where
    "c1 = (if hn \<and> CHR ''['' \<in> set (fst nu) \<and> CHR '']'' \<in> set (fst nu)
           then check_bracketed_netloc checks (fst nu) else None)"
  define c2 where
    "c2 = (if fst nu \<noteq> [] \<and> \<not> list_all (\<lambda>c. (of_char c :: nat) < 128) (fst nu)
           then checknetloc checks (fst nu) else None)"
  define uf where
    "uf = (if CHR ''#'' \<in> set (snd nu)
           then (str_upto (snd nu) (str_find (CHR ''#'') (snd nu)),
                 str_from (snd nu) (str_find (CHR ''#'') (snd nu) + 1))
           else (snd nu, []))"
  define uq where
    "uq = (if CHR ''?'' \<in> set (fst uf)
           then (str_upto (fst uf) (str_find (CHR ''?'') (fst uf)),
                 str_from (fst uf) (str_find (CHR ''?'') (fst uf) + 1))
           else (fst uf, []))"
  have shape: "urlsplit checks url =
      (if bad then Inl (OtherException ''Invalid IPv6 URL'')
       else case c1 of Some e \<Rightarrow> Inl e
            | None \<Rightarrow> (case c2 of Some e \<Rightarrow> Inl e
                        | None \<Rightarrow> Inr (fst su, fst nu, fst uq, snd uq, snd uf)))"
    unfolding urlsplit_def Let_def case_prod_beta uq_def uf_def c2_def c1_def bad_def
      nu_def hn_def su_def url1_def
    by (rule refl)
  have p: "p = fst uq"
    using assms unfolding shape by (cases bad; cases c1; cases c2) simp_all
  have hash: "CHR ''#'' \<notin> set (fst uf)"
    by (simp add: uf_def str_upto_find not_in_takeWhile)
  have sub: "set (fst uq) \<subseteq> set (fst uf)"
    by (simp add: uq_def set_str_upto)
  have quest: "CHR ''?'' \<notin> set (fst uq)"
    by (simp add: uq_def str_upto_find not_in_takeWhile)
  from p hash sub quest show ?thesis by blast
qed

lemma cpython_urlparse_path_delimiters:
  assumes "cpython_urlparse checks url = Inr r"
  shows "CHR ''?'' \<notin> set (path r) \<and> CHR ''#'' \<notin> set (path r)"
proof -
  from assms obtain sch nloc p qry frag where
    s: "urlsplit checks url = Inr (sch, nloc, p, qry, frag)"
    and r: "path r = (if sch \<in> set uses_params \<and> CHR '';'' \<in> set p
                      then fst (splitparams p) else p)"
    by (auto simp: cpython_urlparse_def Let_def case_prod_beta split: sum.splits)
  have "set (path r) \<subseteq> set p"
    using set_splitparams [of p] by (simp add: r)
  with urlsplit_path_delimiters [OF s] show ?thesis by blast
qed

lemma set_basename: "set (basename p) \<subseteq> set p"
  by (simp add: basename_def set_drop_subset)

section \<open>Properties of the filename resolver\<close>

text \<open>
  C5: for every URL and every non-empty provided filename \<open>p\<close>,
  \<open>get_output_filename\<close> returns \<open>p\<close> unchanged, whatever the URL and whatever the
  URL parser does; nothing is printed.
\<close>

theorem get_output_filename_provided:
  "p \<noteq> [] \<Longrightarrow> get_output_filename urlparse url (Some p) w = (Inr p, w)"
  by (simp add: get_output_filename_def)

theorem get_output_filename_provided_witness:
  "''out.bin'' \<noteq> [] \<and>
   get_output_filename (cpython_urlparse no_checks) ''http://example.com/a.zip''
     (Some ''out.bin'') empty_world = (Inr ''out.bin'', empty_world)"
  using get_output_filename_provided [of "''out.bin''" "cpython_urlparse no_checks"
      "''http://example.com/a.zip''" empty_world]
  by simp





text \<open>
  C9, as the code has it: for every input, \<open>get_output_filename\<close> leaves the files
  alone, opens nothing and sends nothing; its only effect is on standard output.  It
  prints nothing when a non-empty filename is provided, and nothing when the name is the
  non-empty final segment of the path.  It prints exactly one line when it falls back to
  \<open>index.html\<close>: when the path is empty or ends in a slash, and when the parser
  raises.
\<close>

theorem get_output_filename_frame:
  "files (snd (get_output_filename urlparse url provided_filename w)) = files w
   \<and> open_calls (snd (get_output_filename urlparse url provided_filename w)) = open_calls w
   \<and> sent (snd (get_output_filename urlparse url provided_filename w)) = sent w
   \<and> (provided_filename = Some p \<and> p \<noteq> []
      \<longrightarrow> stdout (snd (get_output_filename urlparse url provided_filename w)) = stdout w)
   \<and> (urlparse url = Inr r \<and> path r \<noteq> [] \<and> last (path r) \<noteq> CHR ''/''
      \<longrightarrow> stdout (snd (get_output_filename urlparse url provided_filename w)) = stdout w)
   \<and> ((provided_filename = None \<or> provided_filename = Some [])
       \<and> urlparse url = Inr r \<and> (path r = [] \<or> last (path r) = CHR ''/'')
      \<longrightarrow> stdout (snd (get_output_filename urlparse url provided_filename w))
          = stdout w @ [''No filename in URL. Defaulting to '' @ quoted ''index.html''])
   \<and> ((provided_filename = None \<or> provided_filename = Some []) \<and> urlparse url = Inl e
      \<longrightarrow> stdout (snd (get_output_filename urlparse url provided_filename w))
          = stdout w @ [''Could not parse URL to get filename: '' @ str_exn e
                         @ ''. Defaulting to '' @ quoted ''index.html''])"
proof -
  have empty: "basename (path r) = [] \<longleftrightarrow> path r = [] \<or> last (path r) = CHR ''/''"
    by (rule basename_empty_iff)
  show ?thesis
    using empty
    by (cases "urlparse url"; cases provided_filename)
       (auto simp: get_output_filename_def Let_def print_def)
qed

theorem get_output_filename_frame_witness:
  "files (snd (get_output_filename (cpython_urlparse no_checks) ''http://example.com/''
                 None empty_world)) = files empty_world
   \<and> stdout (snd (get_output_filename (cpython_urlparse no_checks) ''http://example.com/''
                 None empty_world))
       = stdout empty_world @ [''No filename in URL. Defaulting to '' @ quoted ''index.html'']
   \<and> stdout (snd (get_output_filename (cpython_urlparse no_checks) ''http://example.com/a.zip''
                 None empty_world)) = stdout empty_world
   \<and> stdout (snd (get_output_filename (cpython_urlparse no_checks) ''http://example.com/''
                 (Some ''out.bin'') empty_world)) = stdout empty_world
   \<and> stdout (snd (get_output_filename (cpython_urlparse no_checks) ''http://[::1/a.zip''
                 None empty_world))
       = stdout empty_world @ [''Could not parse URL to get filename: Invalid IPv6 URL''
                                 @ ''. Defaulting to '' @ quoted ''index.html'']"
proof -
  let ?r1 = "\<lparr>scheme = ''http'', netloc = ''example.com'', path = ''/'',
              params = [], query = [], fragment = []\<rparr>"
  let ?r2 = "\<lparr>scheme = ''http'', netloc = ''example.com'', path = ''/a.zip'',
              params = [], query = [], fragment = []\<rparr>"
  have p1: "cpython_urlparse no_checks ''http://example.com/'' = Inr ?r1"
    by code_simp
  have p2: "cpython_urlparse no_checks ''http://example.com/a.zip'' = Inr ?r2"
    by code_simp
  have p3: "cpython_urlparse no_checks ''http://[::1/a.zip'' =
              Inl (OtherException ''Invalid IPv6 URL'')"
    by code_simp
  have "files (snd (get_output_filename (cpython_urlparse no_checks) ''http://example.com/''
                 None empty_world)) = files empty_world
     \<and> stdout (snd (get_output_filename (cpython_urlparse no_checks) ''http://example.com/''
                 None empty_world))
       = stdout empty_world @ [''No filename in URL. Defaulting to '' @ quoted ''index.html'']"
    using p1 get_output_filename_frame
            [where urlparse = "cpython_urlparse no_checks" and url = "''http://example.com/''"
               and provided_filename = None and w = empty_world and r = ?r1]
    by simp
  moreover
  have "stdout (snd (get_output_filename (cpython_urlparse no_checks)
                  ''http://example.com/a.zip'' None empty_world)) = stdout empty_world"
    using p2 get_output_filename_frame
            [where urlparse = "cpython_urlparse no_checks"
               and url = "''http://example.com/a.zip''"
               and provided_filename = None and w = empty_world and r = ?r2]
    by simp
  moreover
  have "stdout (snd (get_output_filename (cpython_urlparse no_checks) ''http://example.com/''
                 (Some ''out.bin'') empty_world)) = stdout empty_world"
    using get_output_filename_frame
            [where urlparse = "cpython_urlparse no_checks" and url = "''http://example.com/''"
               and provided_filename = "Some ''out.bin''" and w = empty_world
               and p = "''out.bin''"]
    by simp
  moreover
  have "stdout (snd (get_output_filename (cpython_urlparse no_checks) ''http://[::1/a.zip''
                 None empty_world))
       = stdout empty_world @ [''Could not parse URL to get filename: Invalid IPv6 URL''
                                 @ ''. Defaulting to '' @ quoted ''index.html'']"
    using p3 get_output_filename_frame
            [where urlparse = "cpython_urlparse no_checks" and url = "''http://[::1/a.zip''"
               and provided_filename = None and w = empty_world
               and e = "OtherException ''Invalid IPv6 URL''"]
    by simp
  ultimately show ?thesis by simp
qed

text \<open>
  C9 as worded says there is no output at all.  For a URL whose path ends in a slash the
  function prints a line.
\<close>

theorem get_output_filename_prints_counterexample:
  "stdout empty_world = []
   \<and> stdout (snd (get_output_filename (cpython_urlparse no_checks) ''http://example.com/''
                   None empty_world))
     = [''No filename in URL. Defaulting to '' @ [CHR 0x27] @ ''index.html'' @ [CHR 0x27]]"
  by code_simp

text \<open>
  C10: the inferred filename depends only on the path component.  Whatever the parser,
  two URLs whose parse results have the same path get the same result (and the same
  output), whatever their query and fragment.  With the concrete parser, the returned
  name never contains \<open>?\<close> or \<open>#\<close>, the characters that start the query and the
  fragment.
\<close>

theorem get_output_filename_path_only:
  "(urlparse1 url1 = Inr r1 \<and> urlparse2 url2 = Inr r2 \<and> path r1 = path r2
      \<longrightarrow> get_output_filename urlparse1 url1 None w
          = get_output_filename urlparse2 url2 None w)
   \<and> (fst (get_output_filename (cpython_urlparse checks) url None w) = Inr f
      \<longrightarrow> CHR ''?'' \<notin> set f \<and> CHR ''#'' \<notin> set f)"
proof (intro conjI impI)
  assume "urlparse1 url1 = Inr r1 \<and> urlparse2 url2 = Inr r2 \<and> path r1 = path r2"
  then show "get_output_filename urlparse1 url1 None w
               = get_output_filename urlparse2 url2 None w"
    by (simp add: get_output_filename_def)
next
  assume res: "fst (get_output_filename (cpython_urlparse checks) url None w) = Inr f"
  show "CHR ''?'' \<notin> set f"
  proof (cases "cpython_urlparse checks url")
    case (Inl e)
    with res have "f = ''index.html''" by (simp add: get_output_filename_def)
    then show ?thesis by simp
  next
    case (Inr r)
    with res have "f = ''index.html'' \<or> f = basename (path r)"
      by (auto simp: get_output_filename_def Let_def split: if_splits)
    then show ?thesis
      using cpython_urlparse_path_delimiters [OF Inr] set_basename [of "path r"] by auto
  qed
  show "CHR ''#'' \<notin> set f"
  proof (cases "cpython_urlparse checks url")
    case (Inl e)
    with res have "f = ''index.html''" by (simp add: get_output_filename_def)
    then show ?thesis by simp
  next
    case (Inr r)
    with res have "f = ''index.html'' \<or> f = basename (path r)"
      by (auto simp: get_output_filename_def Let_def split: if_splits)
    then show ?thesis
      using cpython_urlparse_path_delimiters [OF Inr] set_basename [of "path r"] by auto
  qed
qed

theorem get_output_filename_path_only_witness:
  "get_output_filename (cpython_urlparse no_checks) ''http://example.com/a.zip?x=1#top''
      None empty_world
     = get_output_filename (cpython_urlparse no_checks) ''http://example.com/a.zip''
         None empty_world
   \<and> fst (get_output_filename (cpython_urlparse no_checks) ''http://example.com/a.zip?x=1#top''
            None empty_world) = Inr ''a.zip''
   \<and> CHR ''?'' \<notin> set ''a.zip'' \<and> CHR ''#'' \<notin> set ''a.zip''"
proof -
  let ?r1 = "\<lparr>scheme = ''http'', netloc = ''example.com'', path = ''/a.zip'',
              params = [], query = ''x=1'', fragment = ''top''\<rparr>"
  let ?r2 = "\<lparr>scheme = ''http'', netloc = ''example.com'', path = ''/a.zip'',
              params = [], query = [], fragment = []\<rparr>"
  have p1: "cpython_urlparse no_checks ''http://example.com/a.zip?x=1#top'' = Inr ?r1"
    by code_simp
  have p2: "cpython_urlparse no_checks ''http://example.com/a.zip'' = Inr ?r2"
    by code_simp
  have v: "fst (get_output_filename (cpython_urlparse no_checks)
                  ''http://example.com/a.zip?x=1#top'' None empty_world) = Inr ''a.zip''"
    by code_simp
  show ?thesis
    using p1 p2 v
      get_output_filename_path_only
        [of "cpython_urlparse no_checks" "''http://example.com/a.zip?x=1#top''" ?r1
            "cpython_urlparse no_checks" "''http://example.com/a.zip''" ?r2 empty_world
            no_checks "''http://example.com/a.zip?x=1#top''" "''a.zip''"]
    by simp
qed

section \<open>Facts about the parts of the downloader\<close>

lemma fst_prepare_session:
  "fst (prepare_session env url w) =
     \<lparr>cookies = (case browsercookie_load env of Inr jar \<Rightarrow> jar | Inl e \<Rightarrow> []),
      headers = [(''User-Agent'', user_agent)]\<rparr>"
  by (cases "browsercookie_load env")
     (simp_all add: prepare_session_def load_browser_cookies_def Session_def Let_def)

lemma prepare_session_frame:
  "files (snd (prepare_session env url w)) = files w"
  "open_calls (snd (prepare_session env url w)) = open_calls w"
  "sent (snd (prepare_session env url w)) = sent w"
  by (cases "browsercookie_load env";
      simp add: prepare_session_def load_browser_cookies_def Let_def print_def)+

lemma prepare_session_stdout_failed:
  "browsercookie_load env = Inl e \<Longrightarrow>
   stdout (snd (prepare_session env url w)) =
     stdout w @ [''Attempting to load cookies from browsers (Chrome, Firefox, etc.)...'',
                 ''Error loading cookies: '' @ str_exn e,
                 ''This can happen if browsers are not found or if decryption fails.'',
                 ''Proceeding without cookies...'',
                 nl @ ''Downloading: '' @ url]"
  by (simp add: prepare_session_def load_browser_cookies_def Let_def print_def)

lemma report_error_frame:
  "fst (report_error output_file e w) = Inr ()"
  "files (snd (report_error output_file e w)) = files w"
  "open_calls (snd (report_error output_file e w)) = open_calls w"
  "sent (snd (report_error output_file e w)) = sent w"
  by (cases e; simp add: print_def)+

lemma report_error_stdout:
  "stdout (snd (report_error output_file e w)) =
     stdout w @ (case e of
        HTTPError m r \<Rightarrow>
          [nl @ ''HTTP Error: '' @ str_int (status_code r) @ '' '' @ reason r,
           ''This could be due to missing/invalid cookies or a bad URL.'']
      | RequestException k m \<Rightarrow> [nl @ ''An error occurred: '' @ m]
      | IOError m \<Rightarrow> [nl @ ''Error writing to file '' @ output_file @ '': '' @ m]
      | OtherException m \<Rightarrow> [nl @ ''An unexpected error occurred: '' @ m])"
  by (cases e) (simp_all add: print_def)

lemma request_and_save_sent:
  "sent (snd (request_and_save env s url output_file w)) =
     sent w @ [\<lparr>req_url = url, req_cookies = cookies s, req_headers = headers s,
                allow_redirects = True\<rparr>]"
  by (simp add: request_and_save_def Let_def print_def
           split: sum.split option.split prod.split)

lemma download_with_cookies_unfold:
  "download_with_cookies env url output_file w =
     (case request_and_save env (fst (prepare_session env url w)) url output_file
             (snd (prepare_session env url w)) of
        (Inr u, w3) \<Rightarrow> (Inr (), w3)
      | (Inl e, w3) \<Rightarrow> report_error output_file e w3)"
  by (simp add: download_with_cookies_def case_prod_beta split: sum.split)

lemma download_with_cookies_returns:
  "fst (download_with_cookies env url output_file w) = Inr ()"
  by (simp add: download_with_cookies_unfold report_error_frame split: prod.split sum.split)

lemma download_with_cookies_sent:
  "sent (snd (download_with_cookies env url output_file w)) =
     sent w @ [\<lparr>req_url = url,
                req_cookies = (case browsercookie_load env of Inr jar \<Rightarrow> jar | Inl e \<Rightarrow> []),
                req_headers = [(''User-Agent'', user_agent)],
                allow_redirects = True\<rparr>]"
proof -
  let ?s = "fst (prepare_session env url w)" and ?w2 = "snd (prepare_session env url w)"
  obtain r w3 where rs: "request_and_save env ?s url output_file ?w2 = (r, w3)"
    by (cases "request_and_save env ?s url output_file ?w2")
  have "sent (snd (download_with_cookies env url output_file w)) = sent w3"
    by (cases r) (simp_all add: download_with_cookies_unfold rs report_error_frame)
  also have "\<dots> = sent (snd (request_and_save env ?s url output_file ?w2))"
    by (simp add: rs)
  finally show ?thesis
    by (simp add: request_and_save_sent prepare_session_frame fst_prepare_session)
qed

lemma request_and_save_raises_for_status:
  assumes "session_get env \<lparr>req_url = url, req_cookies = cookies s, req_headers = headers s,
                             allow_redirects = True\<rparr> = Inr r"
      and "400 \<le> status_code r" and "status_code r < 600"
  shows "\<exists>m. request_and_save env s url output_file w =
           (Inl (HTTPError m r),
            w\<lparr>sent := sent w @ [\<lparr>req_url = url, req_cookies = cookies s,
                                   req_headers = headers s, allow_redirects = True\<rparr>]\<rparr>)"
  using assms by (simp add: request_and_save_def raise_for_status_def Let_def)

lemma request_and_save_get_fails:
  assumes "session_get env \<lparr>req_url = url, req_cookies = cookies s, req_headers = headers s,
                             allow_redirects = True\<rparr> = Inl e"
  shows "request_and_save env s url output_file w =
           (Inl e,
            w\<lparr>sent := sent w @ [\<lparr>req_url = url, req_cookies = cookies s,
                                   req_headers = headers s, allow_redirects = True\<rparr>]\<rparr>)"
  using assms by (simp add: request_and_save_def Let_def)

lemma request_and_save_success:
  assumes "session_get env \<lparr>req_url = url, req_cookies = cookies s, req_headers = headers s,
                             allow_redirects = True\<rparr> = Inr r"
      and "status_code r < 400"
      and "open_error env output_file = None"
      and "write_error env output_file (content r) = None"
  shows "request_and_save env s url output_file w =
           (Inr (),
            w\<lparr>sent := sent w @ [\<lparr>req_url = url, req_cookies = cookies s,
                                   req_headers = headers s, allow_redirects = True\<rparr>],
              open_calls := open_calls w @ [output_file],
              files := (files w)(output_file \<mapsto> content r),
              stdout := stdout w @ [nl @ ''Success! Content saved to: '' @ output_file]\<rparr>)"
  using assms by (simp add: request_and_save_def raise_for_status_def Let_def print_def)


section \<open>Properties of the downloader\<close>

text \<open>
  C1: when \<^verbatim>\<open>browsercookie.load()\<close> raises, whatever the exception,
  \<open>download_with_cookies\<close> returns normally (nothing reaches the caller), prints the
  three warning lines after the opening line, and still issues the GET request, with an
  empty cookie set.
\<close>

theorem cookie_failure_is_absorbed:
  assumes "browsercookie_load env = Inl e"
  shows "fst (download_with_cookies env url output_file w) = Inr ()
     \<and> sent (snd (download_with_cookies env url output_file w)) =
         sent w @ [\<lparr>req_url = url, req_cookies = [],
                    req_headers = [(''User-Agent'', user_agent)], allow_redirects = True\<rparr>]
     \<and> (\<exists>rest. stdout (snd (download_with_cookies env url output_file w)) =
           stdout w @ [''Attempting to load cookies from browsers (Chrome, Firefox, etc.)...'',
                       ''Error loading cookies: '' @ str_exn e,
                       ''This can happen if browsers are not found or if decryption fails.'',
                       ''Proceeding without cookies...'',
                       nl @ ''Downloading: '' @ url] @ rest)"
proof (intro conjI)
  show "fst (download_with_cookies env url output_file w) = Inr ()"
    by (rule download_with_cookies_returns)
  show "sent (snd (download_with_cookies env url output_file w)) =
         sent w @ [\<lparr>req_url = url, req_cookies = [],
                    req_headers = [(''User-Agent'', user_agent)], allow_redirects = True\<rparr>]"
    using assms by (simp add: download_with_cookies_sent)
  let ?s = "fst (prepare_session env url w)" and ?w2 = "snd (prepare_session env url w)"
  obtain r w3 where rs: "request_and_save env ?s url output_file ?w2 = (r, w3)"
    by (cases "request_and_save env ?s url output_file ?w2")
  have "\<exists>rest. stdout w3 = stdout ?w2 @ rest"
    using rs by (auto simp: request_and_save_def Let_def print_def
                     split: sum.splits option.splits prod.splits)
  then obtain rest where w3: "stdout w3 = stdout ?w2 @ rest" ..
  have "\<exists>rest'. stdout (snd (download_with_cookies env url output_file w)) = stdout w3 @ rest'"
    by (cases r) (simp_all add: download_with_cookies_unfold rs report_error_stdout)
  then obtain rest' where
    "stdout (snd (download_with_cookies env url output_file w)) = stdout w3 @ rest'" ..
  then have "stdout (snd (download_with_cookies env url output_file w)) =
               stdout ?w2 @ rest @ rest'"
    by (simp add: w3)
  then show "\<exists>rest. stdout (snd (download_with_cookies env url output_file w)) =
           stdout w @ [''Attempting to load cookies from browsers (Chrome, Firefox, etc.)...'',
                       ''Error loading cookies: '' @ str_exn e,
                       ''This can happen if browsers are not found or if decryption fails.'',
                       ''Proceeding without cookies...'',
                       nl @ ''Downloading: '' @ url] @ rest"
    using assms by (simp add: prepare_session_stdout_failed)
qed


theorem cookie_failure_is_absorbed_witness:
  "browsercookie_load
     ((example_env (Inr (example_response 200 ''OK'')))
        \<lparr>browsercookie_load := Inl (OtherException ''Failed to find Chrome cookie'')\<rparr>)
     = Inl (OtherException ''Failed to find Chrome cookie'')
   \<and> fst (download_with_cookies
            ((example_env (Inr (example_response 200 ''OK'')))
               \<lparr>browsercookie_load := Inl (OtherException ''Failed to find Chrome cookie'')\<rparr>)
            ''http://example.com/data.zip'' ''out.zip'' empty_world) = Inr ()
   \<and> sent (snd (download_with_cookies
            ((example_env (Inr (example_response 200 ''OK'')))
               \<lparr>browsercookie_load := Inl (OtherException ''Failed to find Chrome cookie'')\<rparr>)
            ''http://example.com/data.zip'' ''out.zip'' empty_world))
       = [\<lparr>req_url = ''http://example.com/data.zip'', req_cookies = [],
           req_headers = [(''User-Agent'', user_agent)], allow_redirects = True\<rparr>]"
  using cookie_failure_is_absorbed
          [of "(example_env (Inr (example_response 200 ''OK'')))
                 \<lparr>browsercookie_load := Inl (OtherException ''Failed to find Chrome cookie'')\<rparr>"
              "OtherException ''Failed to find Chrome cookie''"
              "''http://example.com/data.zip''" "''out.zip''" empty_world]
  by (simp add: example_env_def empty_world_def)

text \<open>
  C8: for every invocation, the session is set up with the loaded cookies (none when
  loading failed or found nothing) and with exactly one header, the fixed
  \<open>User-Agent\<close> of a browser; exactly one GET request is issued, through that
  session, for the given URL, with redirects followed.
\<close>

theorem single_get_request:
  "fst (prepare_session env url w) =
     \<lparr>cookies = (case browsercookie_load env of Inr jar \<Rightarrow> jar | Inl e \<Rightarrow> []),
      headers = [(''User-Agent'',
                  ''Mozilla/5.0 (X11; Linux x86_64; rv:109.0) Gecko/20100101 Firefox/115.0'')]\<rparr>
   \<and> sent (snd (download_with_cookies env url output_file w)) =
       sent w @ [\<lparr>req_url = url,
                  req_cookies = cookies (fst (prepare_session env url w)),
                  req_headers = headers (fst (prepare_session env url w)),
                  allow_redirects = True\<rparr>]"
  by (simp add: download_with_cookies_sent fst_prepare_session user_agent_def)

theorem single_get_request_witness:
  "sent (snd (download_with_cookies
          ((example_env (Inr (example_response 200 ''OK'')))
             \<lparr>browsercookie_load :=
                Inr [\<lparr>domain = ''example.com'', name = ''sid'', cvalue = ''abc''\<rparr>,
                     \<lparr>domain = ''example.org'', name = ''lang'', cvalue = ''en''\<rparr>]\<rparr>)
          ''http://example.com/data.zip'' ''out.zip'' empty_world))
     = [\<lparr>req_url = ''http://example.com/data.zip'',
         req_cookies = [\<lparr>domain = ''example.com'', name = ''sid'', cvalue = ''abc''\<rparr>,
                        \<lparr>domain = ''example.org'', name = ''lang'', cvalue = ''en''\<rparr>],
         req_headers = [(''User-Agent'',
            ''Mozilla/5.0 (X11; Linux x86_64; rv:109.0) Gecko/20100101 Firefox/115.0'')],
         allow_redirects = True\<rparr>]"
  using single_get_request
          [of "(example_env (Inr (example_response 200 ''OK'')))
                 \<lparr>browsercookie_load :=
                    Inr [\<lparr>domain = ''example.com'', name = ''sid'', cvalue = ''abc''\<rparr>,
                         \<lparr>domain = ''example.org'', name = ''lang'', cvalue = ''en''\<rparr>]\<rparr>"
              "''http://example.com/data.zip''" empty_world "''out.zip''"]
  by (simp add: example_env_def empty_world_def)

text \<open>
  C6: when \<^verbatim>\<open>session.get\<close> fails at the network level, which the library reports as
  a \<^verbatim>\<open>RequestException\<close> (connection failure, timeout, DNS failure, TLS failure), the
  \<^verbatim>\<open>try\<close> body stops there, the function returns normally after printing the line of
  the \<^verbatim>\<open>RequestException\<close> clause, no file is changed and \<^verbatim>\<open>open\<close> is never
  called.
\<close>

theorem network_failure_reported:
  assumes "session_get env
             \<lparr>req_url = url,
              req_cookies = (case browsercookie_load env of Inr jar \<Rightarrow> jar | Inl e \<Rightarrow> []),
              req_headers = [(''User-Agent'', user_agent)],
              allow_redirects = True\<rparr> = Inl (RequestException k m)"
  shows "fst (request_and_save env (fst (prepare_session env url w)) url output_file
                (snd (prepare_session env url w))) = Inl (RequestException k m)
     \<and> fst (download_with_cookies env url output_file w) = Inr ()
     \<and> stdout (snd (download_with_cookies env url output_file w)) =
         stdout (snd (prepare_session env url w)) @ [nl @ ''An error occurred: '' @ m]
     \<and> files (snd (download_with_cookies env url output_file w)) = files w
     \<and> open_calls (snd (download_with_cookies env url output_file w)) = open_calls w"
proof -
  let ?s = "fst (prepare_session env url w)" and ?w2 = "snd (prepare_session env url w)"
  have "session_get env \<lparr>req_url = url, req_cookies = cookies ?s, req_headers = headers ?s,
                          allow_redirects = True\<rparr> = Inl (RequestException k m)"
    using assms by (simp add: fst_prepare_session)
  from request_and_save_get_fails [OF this, of output_file ?w2]
  show ?thesis
    by (simp add: download_with_cookies_unfold print_def prepare_session_frame)
qed

theorem network_failure_reported_witness:
  "fst (download_with_cookies (example_env (Inl (RequestException ReadTimeout ''Read timed out.'')))
          ''http://example.com/data.zip'' ''out.zip'' empty_world) = Inr ()
   \<and> last (stdout (snd (download_with_cookies
                          (example_env (Inl (RequestException ReadTimeout ''Read timed out.'')))
                          ''http://example.com/data.zip'' ''out.zip'' empty_world)))
       = nl @ ''An error occurred: Read timed out.''
   \<and> files (snd (download_with_cookies
                   (example_env (Inl (RequestException ReadTimeout ''Read timed out.'')))
                   ''http://example.com/data.zip'' ''out.zip'' empty_world)) ''out.zip'' = None
   \<and> open_calls (snd (download_with_cookies
                   (example_env (Inl (RequestException ReadTimeout ''Read timed out.'')))
                   ''http://example.com/data.zip'' ''out.zip'' empty_world)) = []"
  using network_failure_reported
          [of "example_env (Inl (RequestException ReadTimeout ''Read timed out.''))"
              "''http://example.com/data.zip''" ReadTimeout "''Read timed out.''" empty_world
              "''out.zip''"]
  by (simp add: example_env_def empty_world_def)

text \<open>
  C3, as the code has it: for every response with a status from 400 to 599, the range in
  which \<^verbatim>\<open>raise_for_status\<close> raises, the \<^verbatim>\<open>try\<close> body ends with an \<^verbatim>\<open>HTTPError\<close>
  that carries the response; the function returns normally after printing the status code
  and the reason phrase; exactly one request was issued (no retry); no file is changed
  and \<^verbatim>\<open>open\<close> is never called.
\<close>

theorem http_error_reported:
  assumes "session_get env
             \<lparr>req_url = url,
              req_cookies = (case browsercookie_load env of Inr jar \<Rightarrow> jar | Inl e \<Rightarrow> []),
              req_headers = [(''User-Agent'', user_agent)],
              allow_redirects = True\<rparr> = Inr r"
      and "400 \<le> status_code r" and "status_code r < 600"
  shows "(\<exists>msg. fst (request_and_save env (fst (prepare_session env url w)) url output_file
                      (snd (prepare_session env url w))) = Inl (HTTPError msg r))
     \<and> fst (download_with_cookies env url output_file w) = Inr ()
     \<and> stdout (snd (download_with_cookies env url output_file w)) =
         stdout (snd (prepare_session env url w))
           @ [nl @ ''HTTP Error: '' @ str_int (status_code r) @ '' '' @ reason r,
              ''This could be due to missing/invalid cookies or a bad URL.'']
     \<and> sent (snd (download_with_cookies env url output_file w)) =
         sent w @ [\<lparr>req_url = url,
                    req_cookies = (case browsercookie_load env of
                                     Inr jar \<Rightarrow> jar | Inl e \<Rightarrow> []),
                    req_headers = [(''User-Agent'', user_agent)],
                    allow_redirects = True\<rparr>]
     \<and> files (snd (download_with_cookies env url output_file w)) = files w
     \<and> open_calls (snd (download_with_cookies env url output_file w)) = open_calls w"
proof -
  let ?s = "fst (prepare_session env url w)" and ?w2 = "snd (prepare_session env url w)"
  have "session_get env \<lparr>req_url = url, req_cookies = cookies ?s, req_headers = headers ?s,
                          allow_redirects = True\<rparr> = Inr r"
    using assms(1) by (simp add: fst_prepare_session)
  from request_and_save_raises_for_status [OF this assms(2,3), of output_file ?w2]
  obtain msg where
    "request_and_save env ?s url output_file ?w2 =
       (Inl (HTTPError msg r),
        ?w2\<lparr>sent := sent ?w2 @ [\<lparr>req_url = url, req_cookies = cookies ?s,
                                   req_headers = headers ?s, allow_redirects = True\<rparr>]\<rparr>)" ..
  then show ?thesis
    by (simp add: download_with_cookies_unfold print_def prepare_session_frame
                  fst_prepare_session)
qed

theorem http_error_reported_witness:
  "fst (download_with_cookies (example_env (Inr (example_response 404 ''Not Found'')))
          ''http://example.com/data.zip'' ''out.zip'' empty_world) = Inr ()
   \<and> stdout (snd (download_with_cookies (example_env (Inr (example_response 404 ''Not Found'')))
          ''http://example.com/data.zip'' ''out.zip'' empty_world))
       = [''Attempting to load cookies from browsers (Chrome, Firefox, etc.)...'',
          ''Warning: No cookies were found or loaded.'',
          nl @ ''Downloading: http://example.com/data.zip'',
          nl @ ''HTTP Error: 404 Not Found'',
          ''This could be due to missing/invalid cookies or a bad URL.'']
   \<and> length (sent (snd (download_with_cookies
          (example_env (Inr (example_response 404 ''Not Found'')))
          ''http://example.com/data.zip'' ''out.zip'' empty_world))) = 1
   \<and> files (snd (download_with_cookies (example_env (Inr (example_response 404 ''Not Found'')))
          ''http://example.com/data.zip'' ''out.zip'' empty_world)) ''out.zip'' = None
   \<and> open_calls (snd (download_with_cookies
          (example_env (Inr (example_response 404 ''Not Found'')))
          ''http://example.com/data.zip'' ''out.zip'' empty_world)) = []"
proof -
  have pre: "stdout (snd (prepare_session (example_env (Inr (example_response 404 ''Not Found'')))
                      ''http://example.com/data.zip'' empty_world))
             = [''Attempting to load cookies from browsers (Chrome, Firefox, etc.)...'',
                ''Warning: No cookies were found or loaded.'',
                nl @ ''Downloading: http://example.com/data.zip'']"
    by code_simp
  have code: "str_int 404 = ''404''"
    by code_simp
  show ?thesis
    using pre code
      http_error_reported
        [of "example_env (Inr (example_response 404 ''Not Found''))"
            "''http://example.com/data.zip''" "example_response 404 ''Not Found''"
            empty_world "''out.zip''"]
    by (simp add: example_env_def example_response_def empty_world_def)
qed

text \<open>
  C3 as worded covers every status from 400 up.  A response with status 999 passes
  \<^verbatim>\<open>raise_for_status\<close>: the \<^verbatim>\<open>try\<close> body runs to its end, the file is opened and the
  body is saved.
\<close>

theorem http_status_above_599_counterexample:
  "400 \<le> status_code (example_response 999 ''Request denied'')
   \<and> fst (request_and_save (example_env (Inr (example_response 999 ''Request denied'')))
            (fst (prepare_session (example_env (Inr (example_response 999 ''Request denied'')))
                    ''http://example.com/data.zip'' empty_world))
            ''http://example.com/data.zip'' ''out.zip''
            (snd (prepare_session (example_env (Inr (example_response 999 ''Request denied'')))
                    ''http://example.com/data.zip'' empty_world))) = Inr ()
   \<and> files (snd (download_with_cookies
                   (example_env (Inr (example_response 999 ''Request denied'')))
                   ''http://example.com/data.zip'' ''out.zip'' empty_world)) ''out.zip''
       = Some [104, 101, 108, 108, 111]
   \<and> open_calls (snd (download_with_cookies
                   (example_env (Inr (example_response 999 ''Request denied'')))
                   ''http://example.com/data.zip'' ''out.zip'' empty_world)) = [''out.zip'']
   \<and> last (stdout (snd (download_with_cookies
                   (example_env (Inr (example_response 999 ''Request denied'')))
                   ''http://example.com/data.zip'' ''out.zip'' empty_world)))
       = nl @ ''Success! Content saved to: out.zip''"
  by code_simp

text \<open>
  C2, as the code has it: for every response with a status below 400, when the
  destination can be opened and the write succeeds, the file at \<open>output_file\<close> holds
  exactly the response body afterwards (no other file changes), it was opened once, and
  the success line is printed.
\<close>

theorem body_written_unchanged:
  assumes "session_get env
             \<lparr>req_url = url,
              req_cookies = (case browsercookie_load env of Inr jar \<Rightarrow> jar | Inl e \<Rightarrow> []),
              req_headers = [(''User-Agent'', user_agent)],
              allow_redirects = True\<rparr> = Inr r"
      and "status_code r < 400"
      and "open_error env output_file = None"
      and "write_error env output_file (content r) = None"
  shows "fst (download_with_cookies env url output_file w) = Inr ()
     \<and> files (snd (download_with_cookies env url output_file w)) =
         (files w)(output_file \<mapsto> content r)
     \<and> open_calls (snd (download_with_cookies env url output_file w)) =
         open_calls w @ [output_file]
     \<and> stdout (snd (download_with_cookies env url output_file w)) =
         stdout (snd (prepare_session env url w))
           @ [nl @ ''Success! Content saved to: '' @ output_file]"
proof -
  let ?s = "fst (prepare_session env url w)" and ?w2 = "snd (prepare_session env url w)"
  have "session_get env \<lparr>req_url = url, req_cookies = cookies ?s, req_headers = headers ?s,
                          allow_redirects = True\<rparr> = Inr r"
    using assms(1) by (simp add: fst_prepare_session)
  from request_and_save_success [OF this assms(2,3,4), of ?w2]
  show ?thesis
    by (simp add: download_with_cookies_unfold prepare_session_frame)
qed

theorem body_written_unchanged_witness:
  "status_code (example_response 200 ''OK'') < 400
   \<and> content (example_response 200 ''OK'') = [104, 101, 108, 108, 111]
   \<and> files (snd (download_with_cookies (example_env (Inr (example_response 200 ''OK'')))
                   ''http://example.com/data.zip'' ''out.zip'' empty_world))
       = (files empty_world)(''out.zip'' \<mapsto> [104, 101, 108, 108, 111])
   \<and> open_calls (snd (download_with_cookies (example_env (Inr (example_response 200 ''OK'')))
                   ''http://example.com/data.zip'' ''out.zip'' empty_world)) = [''out.zip'']"
  using body_written_unchanged
          [of "example_env (Inr (example_response 200 ''OK''))"
              "''http://example.com/data.zip''" "example_response 200 ''OK''" "''out.zip''"
              empty_world]
  by (simp add: example_env_def example_response_def empty_world_def)

text \<open>
  C2 as worded covers every response with a status below 400.  With status 200 and a
  destination that cannot be opened, no file holds the body afterwards and the
  \<^verbatim>\<open>IOError\<close> clause prints its line.
\<close>

theorem unwritable_destination_counterexample:
  "status_code (example_response 200 ''OK'') < 400
   \<and> content (example_response 200 ''OK'') = [104, 101, 108, 108, 111]
   \<and> files (snd (download_with_cookies
                   ((example_env (Inr (example_response 200 ''OK'')))
                      \<lparr>open_error := (\<lambda>p. Some (IOError ''[Errno 13] Permission denied''))\<rparr>)
                   ''http://example.com/data.zip'' ''out.zip'' empty_world)) ''out.zip'' = None
   \<and> last (stdout (snd (download_with_cookies
                   ((example_env (Inr (example_response 200 ''OK'')))
                      \<lparr>open_error := (\<lambda>p. Some (IOError ''[Errno 13] Permission denied''))\<rparr>)
                   ''http://example.com/data.zip'' ''out.zip'' empty_world)))
       = nl @ ''Error writing to file out.zip: [Errno 13] Permission denied''"
  by code_simp




end
